theory Spec2Isabelle
  imports Main "HOL-Library.Word"
begin

unbundle bit_operations_syntax

section \<open>The HTTP vocabulary\<close>

text \<open>
  The repository holds two variants of one Express program: \<^verbatim>\<open>src/app.js\<close> (variant A)
  and \<^verbatim>\<open>src/unnamed/part_001\<close> (variant B). Each registers three GET routes whose
  handlers call \<^verbatim>\<open>res.send\<close> with a string literal, and then calls
  \<^verbatim>\<open>app.listen(PORT, callback)\<close>.

  What a request receives is decided by the calls the program makes into the Express 4
  framework (\<^verbatim>\<open>require('express')\<close>) with its default settings: the program never
  calls \<^verbatim>\<open>app.set\<close>, \<^verbatim>\<open>res.type\<close> or \<^verbatim>\<open>res.status\<close>. The framework
  is a dependency of the repository, not part of its source files; the operations the
  program calls are modelled below after the framework's own behaviour, each beside the
  behaviour it stands for. A request is its method, its path (the URL without the query
  string) and its headers. Of the response, the status code, the Content-Type, ETag and
  Allow headers and the body are modelled.
\<close>

text \<open>
  The request methods that reach the application: the common ones by name, and any other
  method of the HTTP parser's list (\<^verbatim>\<open>PROPFIND\<close>, \<^verbatim>\<open>MKCOL\<close>, ...) as
  \<open>Extension\<close> with its name. CONNECT is absent: the HTTP server does not hand such
  a request to the application.
\<close>

datatype http_method =
  GET | HEAD | POST | PUT | DELETE | OPTIONS | TRACE | PATCH | Extension string

fun method_name :: "http_method \<Rightarrow> string" where
  "method_name GET = ''GET''"
| "method_name HEAD = ''HEAD''"
| "method_name POST = ''POST''"
| "method_name PUT = ''PUT''"
| "method_name DELETE = ''DELETE''"
| "method_name OPTIONS = ''OPTIONS''"
| "method_name TRACE = ''TRACE''"
| "method_name PATCH = ''PATCH''"
| "method_name (Extension name) = name"

text \<open>
  The headers of a request (\<^verbatim>\<open>req.headers\<close>): header names in lower case, each
  with its value; \<open>header hs name\<close> is \<^verbatim>\<open>req.headers[name]\<close>.
\<close>

type_synonym headers = "(string \<times> string) list"

definition header :: "headers \<Rightarrow> string \<Rightarrow> string option" where
  "header hs name = map_of hs name"

record req =
  req_method :: http_method
  req_path :: string
  req_headers :: headers

abbreviation request :: "http_method \<Rightarrow> string \<Rightarrow> headers \<Rightarrow> req" where
  "request m p hs \<equiv> \<lparr>req_method = m, req_path = p, req_headers = hs\<rparr>"

record content_type =
  media_type :: string
  charset :: "string option"

text \<open>
  The response object. A fresh one has status 200 (the default of the underlying
  \<^verbatim>\<open>http.ServerResponse\<close>), no headers and an empty body; \<open>res_req\<close> is the
  \<^verbatim>\<open>res.req\<close> back reference that \<^verbatim>\<open>res.send\<close> consults.
\<close>

record res =
  res_req :: req
  statusCode :: nat
  contentType :: "content_type option"
  etag :: "string option"
  allow :: "string option"
  body :: string

definition fresh_res :: "req \<Rightarrow> res" where
  "fresh_res rq =
     \<lparr>res_req = rq, statusCode = 200, contentType = None, etag = None, allow = None,
      body = []\<rparr>"

text \<open>The Content-Type header as it goes on the wire.\<close>

definition header_value :: "content_type \<Rightarrow> string" where
  "header_value t =
     (case charset t of None \<Rightarrow> media_type t
      | Some cs \<Rightarrow> media_type t @ ''; charset='' @ cs)"

section \<open>The entity tag of a body\<close>

text \<open>
  By default (\<^verbatim>\<open>etag\<close> setting \<^verbatim>\<open>weak\<close>) the framework tags a body with
  \<^verbatim>\<open>W/"LEN-HASH"\<close>: the length in bytes in hexadecimal and the first 27 characters
  of the Base64 form of the SHA-1 digest of the body. The digest follows.
\<close>

definition length_bytes :: "64 word \<Rightarrow> nat list" where
  "length_bytes x = map (\<lambda>i. unat (drop_bit (8 * (7 - i)) x AND 255)) [0..<8]"

definition word_bytes :: "32 word \<Rightarrow> nat list" where
  "word_bytes x = map (\<lambda>i. unat (drop_bit (8 * (3 - i)) x AND 255)) [0..<4]"

text \<open>
  Padding: the byte 128, then zero bytes up to 56 modulo 64, then the length of the
  message in bits as eight bytes, most significant first.
\<close>

definition sha1_pad :: "nat list \<Rightarrow> nat list" where
  "sha1_pad bs =
     (let l = length bs
      in bs @ [128] @ replicate ((119 - l mod 64) mod 64) 0
         @ length_bytes (word_of_nat (8 * l)))"

fun be_words :: "nat list \<Rightarrow> 32 word list" where
  "be_words (a # b # c # d # bs) =
     (push_bit 24 (word_of_nat a) OR push_bit 16 (word_of_nat b)
      OR push_bit 8 (word_of_nat c) OR word_of_nat d) # be_words bs"
| "be_words bs = []"

text \<open>The message schedule: sixteen words of the block extended to eighty.\<close>

fun expand :: "nat \<Rightarrow> 32 word list \<Rightarrow> 32 word list" where
  "expand 0 w = w"
| "expand (Suc n) w =
     (let t = length w
      in expand n
           (w @ [word_rotl 1
                   (w ! (t - 3) XOR w ! (t - 8) XOR w ! (t - 14) XOR w ! (t - 16))]))"

type_synonym sha1_state = "32 word \<times> 32 word \<times> 32 word \<times> 32 word \<times> 32 word"

definition sha1_f :: "nat \<Rightarrow> 32 word \<Rightarrow> 32 word \<Rightarrow> 32 word \<Rightarrow> 32 word" where
  "sha1_f t b c d =
     (if t < 20 then (b AND c) OR (NOT b AND d)
      else if t < 40 then b XOR c XOR d
      else if t < 60 then (b AND c) OR (b AND d) OR (c AND d)
      else b XOR c XOR d)"

definition sha1_k :: "nat \<Rightarrow> 32 word" where
  "sha1_k t =
     (if t < 20 then 0x5A827999
      else if t < 40 then 0x6ED9EBA1
      else if t < 60 then 0x8F1BBCDC
      else 0xCA62C1D6)"

fun sha1_round :: "32 word list \<Rightarrow> sha1_state \<Rightarrow> nat \<Rightarrow> sha1_state" where
  "sha1_round w (a, b, c, d, e) t =
     (word_rotl 5 a + sha1_f t b c d + e + sha1_k t + w ! t, a, word_rotl 30 b, c, d)"

fun sha1_block :: "sha1_state \<Rightarrow> nat list \<Rightarrow> sha1_state" where
  "sha1_block (h0, h1, h2, h3, h4) block =
     (let w = expand 64 (be_words block);
          (a, b, c, d, e) = foldl (sha1_round w) (h0, h1, h2, h3, h4) [0..<80]
      in (h0 + a, h1 + b, h2 + c, h3 + d, h4 + e))"

fun blocks :: "nat \<Rightarrow> nat list \<Rightarrow> nat list list" where
  "blocks 0 bs = []"
| "blocks (Suc n) bs = take 64 bs # blocks n (drop 64 bs)"

definition sha1 :: "nat list \<Rightarrow> nat list" where
  "sha1 bs =
     (let padded = sha1_pad bs;
          (h0, h1, h2, h3, h4) =
            foldl sha1_block (0x67452301, 0xEFCDAB89, 0x98BADCFE, 0x10325476, 0xC3D2E1F0)
              (blocks (length padded div 64) padded)
      in concat (map word_bytes [h0, h1, h2, h3, h4]))"

definition base64_alphabet :: string where
  "base64_alphabet =
     ''ABCDEFGHIJKLMNOPQRSTUVWXYZabcdefghijklmnopqrstuvwxyz0123456789+/''"

fun base64 :: "nat list \<Rightarrow> string" where
  "base64 (a # b # c # bs) =
     [base64_alphabet ! (a div 4),
      base64_alphabet ! ((a mod 4) * 16 + b div 16),
      base64_alphabet ! ((b mod 16) * 4 + c div 64),
      base64_alphabet ! (c mod 64)] @ base64 bs"
| "base64 [a, b] =
     [base64_alphabet ! (a div 4),
      base64_alphabet ! ((a mod 4) * 16 + b div 16),
      base64_alphabet ! ((b mod 16) * 4),
      CHR ''='']"
| "base64 [a] =
     [base64_alphabet ! (a div 4),
      base64_alphabet ! ((a mod 4) * 16),
      CHR ''='', CHR ''='']"
| "base64 [] = []"

text \<open>\<^verbatim>\<open>len.toString(16)\<close>.\<close>

fun hex :: "nat \<Rightarrow> string" where
  "hex n =
     (if n < 16 then [''0123456789abcdef'' ! n]
      else hex (n div 16) @ [''0123456789abcdef'' ! (n mod 16)])"

declare hex.simps [simp del]

definition entitytag :: "string \<Rightarrow> string" where
  "entitytag entity =
     (if entity = [] then [CHR 0x22] @ ''0-2jmj7l5rSw0yVb/vlWAYkK/YBwk'' @ [CHR 0x22]
      else [CHR 0x22] @ hex (length entity) @ ''-''
           @ take 27 (base64 (sha1 (map of_char entity))) @ [CHR 0x22])"

definition wetag :: "string \<Rightarrow> string" where
  "wetag chunk = ''W/'' @ entitytag chunk"

section \<open>Freshness of a conditional request\<close>

text \<open>
  The list of entity tags in an If-None-Match header: the pieces between commas, without
  the blanks before and after each. \<open>tok\<close> is the piece read so far up to its last
  character that is not a blank, \<open>gap\<close> the blanks read after it.
\<close>

fun token_loop :: "string \<Rightarrow> string \<Rightarrow> string \<Rightarrow> string list \<Rightarrow> string list" where
  "token_loop [] tok gap list = list @ [tok]"
| "token_loop (c # cs) tok gap list =
     (if c = CHR '' '' then
        (if tok = [] then token_loop cs [] [] list
         else token_loop cs tok (gap @ [c]) list)
      else if c = CHR '','' then token_loop cs [] [] (list @ [tok])
      else token_loop cs (tok @ gap @ [c]) [] list)"

definition parse_token_list :: "string \<Rightarrow> string list" where
  "parse_token_list str = token_loop str [] [] []"

text \<open>
  A Cache-Control header asks for \<^verbatim>\<open>no-cache\<close> when one of its pieces between
  commas is that word with nothing but white space around it
  (\<^verbatim>\<open>/(?:^|,)\s*?no-cache\s*?(?:,|$)/\<close>).
\<close>

definition is_space :: "char \<Rightarrow> bool" where
  "is_space c = ((of_char c :: nat) \<in> {9, 10, 11, 12, 13, 32, 160})"

fun split_commas :: "string \<Rightarrow> string \<Rightarrow> string list" where
  "split_commas [] piece = [piece]"
| "split_commas (c # cs) piece =
     (if c = CHR '','' then piece # split_commas cs [] else split_commas cs (piece @ [c]))"

definition trim :: "string \<Rightarrow> string" where
  "trim s = rev (dropWhile is_space (rev (dropWhile is_space s)))"

definition no_cache :: "string \<Rightarrow> bool" where
  "no_cache cacheControl =
     list_ex (\<lambda>piece. trim piece = ''no-cache'') (split_commas cacheControl [])"

text \<open>A header that is present and not the empty string.\<close>

fun truthy :: "string option \<Rightarrow> bool" where
  "truthy None = False"
| "truthy (Some v) = (v \<noteq> [])"

text \<open>
  \<^verbatim>\<open>fresh(reqHeaders, resHeaders)\<close>: whether the conditional headers of the request
  validate the response. An unconditional request is not fresh, nor is one that asks for
  \<^verbatim>\<open>no-cache\<close>. An If-None-Match header other than \<^verbatim>\<open>*\<close> must list the
  entity tag of the response, weak or strong. An If-Modified-Since header is compared
  with the Last-Modified header of the response; no response of this program has one, so
  a request with If-Modified-Since is never fresh.
\<close>

definition fresh :: "headers \<Rightarrow> string option \<Rightarrow> bool" where
  "fresh reqHeaders resEtag =
     (let modifiedSince = header reqHeaders ''if-modified-since'';
          noneMatch = header reqHeaders ''if-none-match'';
          cacheControl = header reqHeaders ''cache-control''
      in if \<not> truthy modifiedSince \<and> \<not> truthy noneMatch then False
         else if truthy cacheControl \<and> no_cache (case cacheControl of Some v \<Rightarrow> v | None \<Rightarrow> [])
           then False
         else if truthy noneMatch \<and> noneMatch \<noteq> Some ''*'' \<and>
                 (case (noneMatch, resEtag) of
                    (Some v, Some tag) \<Rightarrow>
                      tag = [] \<or>
                      \<not> list_ex (\<lambda>match. match = tag \<or> match = ''W/'' @ tag \<or> ''W/'' @ match = tag)
                          (parse_token_list v)
                  | _ \<Rightarrow> True)
           then False
         else if truthy modifiedSince then False
         else True)"

text \<open>
  \<^verbatim>\<open>req.fresh\<close>: only a GET or HEAD request whose response has a status from 200 to
  299, or 304, is tested for freshness.
\<close>

definition req_fresh :: "res \<Rightarrow> bool" where
  "req_fresh r =
     (let m = req_method (res_req r); status = statusCode r
      in if m \<noteq> GET \<and> m \<noteq> HEAD then False
         else if (200 \<le> status \<and> status < 300) \<or> status = 304
           then fresh (req_headers (res_req r)) (etag r)
         else False)"

section \<open>\<^verbatim>\<open>res.send\<close>\<close>

text \<open>
  \<^verbatim>\<open>res.send(chunk)\<close> with a string argument. When no Content-Type has been set the
  framework sets it to \<^verbatim>\<open>html\<close> (\<^verbatim>\<open>if (!this.get('Content-Type')) this.type('html')\<close>)
  and marks the charset as \<^verbatim>\<open>utf-8\<close>. Unless the response already has an ETag, it
  gets the entity tag of the string. When the request is fresh the status becomes 304
  (\<^verbatim>\<open>if (req.fresh) this.statusCode = 304\<close>); a response with status 204 or 304
  loses its Content-Type and its body. The response ends with the body, or with no body
  when the request method is HEAD.
\<close>

definition send :: "string \<Rightarrow> res \<Rightarrow> res" where
  "send chunk r =
     (let t = (case contentType r of
                 None \<Rightarrow> \<lparr>media_type = ''text/html'', charset = None\<rparr>
               | Some t \<Rightarrow> t);
          r = r\<lparr>contentType := Some (t\<lparr>charset := Some ''utf-8''\<rparr>)\<rparr>;
          r = (if etag r = None then r\<lparr>etag := Some (wetag chunk)\<rparr> else r);
          r = (if req_fresh r then r\<lparr>statusCode := 304\<rparr> else r);
          stripped = (statusCode r = 204 \<or> statusCode r = 304);
          r = (if stripped then r\<lparr>contentType := None\<rparr> else r);
          chunk = (if stripped then [] else chunk)
      in r\<lparr>body := (if req_method (res_req r) = HEAD then [] else chunk)\<rparr>)"

section \<open>Routes and path matching\<close>

text \<open>
  A handler gets the request, the response and what the program can change besides the
  response, which is the console (the lines written to standard output): the program
  has no variables of its own beyond the constants \<^verbatim>\<open>express\<close>, \<^verbatim>\<open>app\<close> and
  \<^verbatim>\<open>PORT\<close>.
\<close>

type_synonym console = "string list"

type_synonym handler = "req \<Rightarrow> res \<Rightarrow> console \<Rightarrow> res \<times> console"

record route =
  route_path :: string
  route_methods :: "http_method list"
  route_handle :: handler

text \<open>
  The application's router stack, in registration order. The two layers the framework
  puts in front of the routes (query parsing and request initialisation) pass every
  request on without answering it and are left out.
\<close>

type_synonym application = "route list"

definition express :: application where
  "express = []"

text \<open>\<^verbatim>\<open>app.get(path, handler)\<close> appends a route for the method GET.\<close>

definition app_get :: "string \<Rightarrow> handler \<Rightarrow> application \<Rightarrow> application" where
  "app_get p h app = app @ [\<lparr>route_path = p, route_methods = [GET], route_handle = h\<rparr>]"

text \<open>
  ASCII lower-casing: an upper-case letter (codes 65 to 90) gets bit 5 set.
\<close>

definition to_lower :: "char \<Rightarrow> char" where
  "to_lower c =
     (if 65 \<le> (of_char c :: nat) \<and> (of_char c :: nat) \<le> 90
      then (case c of Char b0 b1 b2 b3 b4 b5 b6 b7 \<Rightarrow> Char b0 b1 b2 b3 b4 True b6 b7)
      else c)"

text \<open>
  A route layer matches the request path through the regular expression that the
  framework compiles from the route path with its default options: not case sensitive
  (\<^verbatim>\<open>case sensitive routing\<close> is off), not strict (\<^verbatim>\<open>strict routing\<close> is off) and
  anchored at the end. For a route path of plain ASCII characters without pattern syntax,
  as all paths of this program are, the expression is \<^verbatim>\<open>/^PATH\/?$/i\<close>, and
  \<^verbatim>\<open>/^\/?$/i\<close> where the route path already ends in a slash: the slash at the end is
  optional and letter case is ignored.
\<close>

definition match_path :: "string \<Rightarrow> string \<Rightarrow> bool" where
  "match_path pat p =
     (let lp = map to_lower p; lpat = map to_lower pat
      in if pat \<noteq> [] \<and> last pat = CHR ''/''
         then lp = lpat \<or> lp = butlast lpat
         else lp = lpat \<or> lp = lpat @ ''/'')"

text \<open>
  \<^verbatim>\<open>Route.prototype._handles_method\<close>: a HEAD request is answered by a GET route
  that has no HEAD handler of its own.
\<close>

definition handles_method :: "route \<Rightarrow> http_method \<Rightarrow> bool" where
  "handles_method r m =
     (let name = (if m = HEAD \<and> HEAD \<notin> set (route_methods r) then GET else m)
      in name \<in> set (route_methods r))"

text \<open>\<^verbatim>\<open>Route.prototype._options\<close>: the methods of a route, with the automatic HEAD.\<close>

definition route_options :: "route \<Rightarrow> http_method list" where
  "route_options r =
     route_methods r @
     (if GET \<in> set (route_methods r) \<and> HEAD \<notin> set (route_methods r) then [HEAD] else [])"

fun append_methods :: "http_method list \<Rightarrow> http_method list \<Rightarrow> http_method list" where
  "append_methods list [] = list"
| "append_methods list (m # ms) =
     append_methods (if m \<in> set list then list else list @ [m]) ms"

fun join :: "string \<Rightarrow> string list \<Rightarrow> string" where
  "join sep [] = []"
| "join sep [x] = x"
| "join sep (x # y # ys) = x @ sep @ join sep (y # ys)"

section \<open>Dispatch\<close>

text \<open>
  The automatic answer to an OPTIONS request that matched route paths but no handler:
  the collected methods, joined by commas, as the Allow header and as the body.
\<close>

definition send_options_response :: "http_method list \<Rightarrow> res \<Rightarrow> res" where
  "send_options_response options r =
     (let b = join '','' (map method_name options)
      in send b (r\<lparr>allow := Some b\<rparr>))"

text \<open>
  The framework's final handler, reached when no route answered: status 404 and a small
  HTML page naming the method and the resource (no body for HEAD). The resource is the
  path name, or the text \<^verbatim>\<open>null\<close> when the URL has none. The framework
  URL-encodes and HTML-escapes the resource name inside the page; the model inserts the
  path as it is, which is the same text for a path of unreserved URL characters.
\<close>

definition finalhandler :: "res \<Rightarrow> res" where
  "finalhandler r =
     (let rq = res_req r;
          page = ''<!DOCTYPE html>\<newline><html lang='' @ [CHR 0x22] @ ''en'' @ [CHR 0x22]
               @ ''>\<newline><head>\<newline><meta charset='' @ [CHR 0x22] @ ''utf-8'' @ [CHR 0x22]
               @ ''>\<newline><title>Error</title>\<newline></head>\<newline><body>\<newline><pre>Cannot ''
               @ method_name (req_method rq) @ '' ''
               @ (if req_path rq = [] then ''null'' else req_path rq)
               @ ''</pre>\<newline></body>\<newline></html>\<newline>''
      in r\<lparr>statusCode := 404,
           contentType := Some \<lparr>media_type = ''text/html'', charset = Some ''utf-8''\<rparr>,
           body := (if req_method rq = HEAD then [] else page)\<rparr>)"

text \<open>
  The router's loop over its stack (\<^verbatim>\<open>next\<close> in \<^verbatim>\<open>router.handle\<close>). A layer whose
  path does not match is skipped. A matching route that handles the method runs its
  handler, which ends the search: no handler of this program calls \<^verbatim>\<open>next\<close>. A matching
  route that does not handle the method adds its methods to the OPTIONS answer when the
  request is OPTIONS, and the search goes on. When the stack is exhausted, an OPTIONS
  request with collected methods gets the automatic answer, every other request the
  final handler; neither writes to the console.
\<close>

fun router_next ::
  "route list \<Rightarrow> http_method list \<Rightarrow> req \<Rightarrow> res \<Rightarrow> console \<Rightarrow> res \<times> console" where
  "router_next [] options rq r out =
     (if req_method rq = OPTIONS \<and> options \<noteq> []
      then (send_options_response options r, out)
      else (finalhandler r, out))"
| "router_next (layer # stack) options rq r out =
     (if \<not> match_path (route_path layer) (req_path rq)
      then router_next stack options rq r out
      else
        let has_method = handles_method layer (req_method rq);
            options = (if \<not> has_method \<and> req_method rq = OPTIONS
                       then append_methods options (route_options layer) else options)
        in if has_method then route_handle layer rq r out
           else router_next stack options rq r out)"

text \<open>
  \<^verbatim>\<open>app.handle\<close>: the response of an application to a request, and the console after
  it. The router first takes the path name of the request URL; a URL without one (the
  empty path here) goes to the final handler at once
  (\<^verbatim>\<open>if (path == null) return done(layerError)\<close>).
\<close>

definition handle :: "application \<Rightarrow> req \<Rightarrow> console \<Rightarrow> res \<times> console" where
  "handle app rq out =
     (let r = fresh_res rq
      in if req_path rq = [] then (finalhandler r, out) else router_next app [] rq r out)"

section \<open>The two programs\<close>

text \<open>
  \<^verbatim>\<open>const app = express();\<close> followed by the three \<^verbatim>\<open>app.get\<close> calls of
  \<^verbatim>\<open>src/app.js\<close>, in their order. Each handler calls \<^verbatim>\<open>res.send\<close> and does
  nothing else.
\<close>

definition app_A :: application where
  "app_A =
     (let app = express;
          app = app_get ''/'' (\<lambda>req res out. (send ''Hello from Express!'' res, out)) app;
          app = app_get ''/intro'' (\<lambda>req res out. (send ''Hello I am anuj!'' res, out)) app;
          app = app_get ''/about'' (\<lambda>req res out. (send ''about me'' res, out)) app
      in app)"

text \<open>The same for \<^verbatim>\<open>src/unnamed/part_001\<close>.\<close>

definition app_B :: application where
  "app_B =
     (let app = express;
          app = app_get ''/'' (\<lambda>req res out. (send ''Hello from Express!'' res, out)) app;
          app = app_get ''/intro'' (\<lambda>req res out. (send ''Hello I am anuj!'' res, out)) app;
          app = app_get ''/section'' (\<lambda>req res out. (send ''sexction'' res, out)) app
      in app)"

text \<open>\<^verbatim>\<open>const PORT = 8000;\<close> in either file.\<close>

definition PORT_A :: nat where
  "PORT_A = 8000"

definition PORT_B :: nat where
  "PORT_B = 8000"

section \<open>The process: listening and the console\<close>

text \<open>
  What the process can see of its surroundings: the environment variables
  (\<^verbatim>\<open>process.env\<close>), the command line, and whether the operating system lets it bind a
  given TCP port.
\<close>

record environment =
  env :: "string \<rightharpoonup> string"
  argv :: "string list"
  port_available :: "nat \<Rightarrow> bool"

datatype server_state = Unbound | Listening nat | BindError nat

record process =
  proc_app :: application
  server :: server_state
  stdout :: console

text \<open>A number in a template literal: its decimal digits.\<close>

fun string_of_nat :: "nat \<Rightarrow> string" where
  "string_of_nat n =
     (if n < 10 then [''0123456789'' ! n]
      else string_of_nat (n div 10) @ [''0123456789'' ! (n mod 10)])"

declare string_of_nat.simps [simp del]

definition console_log :: "string \<Rightarrow> process \<Rightarrow> process" where
  "console_log line pr = pr\<lparr>stdout := stdout pr @ [line]\<rparr>"

text \<open>
  \<^verbatim>\<open>app.listen(port, callback)\<close> creates the HTTP server of the application and asks
  it to listen on the port, with the callback registered for the server's
  \<^verbatim>\<open>listening\<close> event. That event is emitted once the socket is bound. When the port
  cannot be bound the server emits \<^verbatim>\<open>error\<close> instead; the program registers no
  listener for it, so the process ends there and the callback never runs.
\<close>

definition listen :: "nat \<Rightarrow> (process \<Rightarrow> process) \<Rightarrow> environment \<Rightarrow> process \<Rightarrow> process" where
  "listen port callback e pr =
     (if port_available e port then callback (pr\<lparr>server := Listening port\<rparr>)
      else pr\<lparr>server := BindError port\<rparr>)"

text \<open>Running \<^verbatim>\<open>src/app.js\<close> from its first line to the end of the listen step.\<close>

definition main_A :: "environment \<Rightarrow> process" where
  "main_A e =
     (let pr = \<lparr>proc_app = app_A, server = Unbound, stdout = []\<rparr>
      in listen PORT_A
           (\<lambda>pr. console_log
                    (''Server is running on http://localhost:'' @ string_of_nat PORT_A) pr)
           e pr)"

text \<open>Running \<^verbatim>\<open>src/unnamed/part_001\<close> likewise.\<close>

definition main_B :: "environment \<Rightarrow> process" where
  "main_B e =
     (let pr = \<lparr>proc_app = app_B, server = Unbound, stdout = []\<rparr>
      in listen PORT_B
           (\<lambda>pr. console_log
                    (''Server is running on http://localhost:'' @ string_of_nat PORT_B) pr)
           e pr)"

text \<open>
  A listening process answers a request through its application, which gets the console
  of the process and may write to it; a process that is not listening answers nothing.
\<close>

definition serve :: "process \<Rightarrow> req \<Rightarrow> res option \<times> process" where
  "serve pr rq =
     (case server pr of
        Listening port \<Rightarrow>
          (let (r, out) = handle (proc_app pr) rq (stdout pr)
           in (Some r, pr\<lparr>stdout := out\<rparr>))
      | _ \<Rightarrow> (None, pr))"

fun serve_all :: "process \<Rightarrow> req list \<Rightarrow> res option list \<times> process" where
  "serve_all pr [] = ([], pr)"
| "serve_all pr (rq # rqs) =
     (let (r, pr') = serve pr rq;
          (rs, pr'') = serve_all pr' rqs
      in (r # rs, pr''))"

section \<open>Evaluation rules\<close>

lemmas dispatch_defs =
  handle_def app_get_def express_def match_path_def to_lower_def handles_method_def
  route_options_def send_def req_fresh_def fresh_res_def finalhandler_def
  send_options_response_def Let_def

section \<open>Facts about the two programs\<close>

lemma paths_A: "map route_path app_A = [''/'', ''/intro'', ''/about'']"
  by (simp add: app_A_def app_get_def express_def)

lemma paths_B: "map route_path app_B = [''/'', ''/intro'', ''/section'']"
  by (simp add: app_B_def app_get_def express_def)

lemma server_main_A:
  "server (main_A e) = (if port_available e 8000 then Listening 8000 else BindError 8000)"
  by (simp add: main_A_def listen_def console_log_def PORT_A_def)

lemma server_main_B:
  "server (main_B e) = (if port_available e 8000 then Listening 8000 else BindError 8000)"
  by (simp add: main_B_def listen_def console_log_def PORT_B_def)

lemma stdout_main_A:
  "stdout (main_A e) =
     (if port_available e 8000 then [''Server is running on http://localhost:8000''] else [])"
  by (simp add: main_A_def listen_def console_log_def PORT_A_def string_of_nat.simps)

lemma stdout_main_B:
  "stdout (main_B e) =
     (if port_available e 8000 then [''Server is running on http://localhost:8000''] else [])"
  by (simp add: main_B_def listen_def console_log_def PORT_B_def string_of_nat.simps)

lemma proc_app_main_A: "proc_app (main_A e) = app_A"
  by (simp add: main_A_def listen_def console_log_def Let_def)

lemma proc_app_main_B: "proc_app (main_B e) = app_B"
  by (simp add: main_B_def listen_def console_log_def Let_def)

subsection \<open>Freshness\<close>

lemma unconditional_not_fresh:
  "header hs ''if-none-match'' = None \<Longrightarrow> \<not> fresh hs tag"
  by (simp add: fresh_def Let_def)

lemma no_headers_not_fresh: "\<not> fresh [] tag"
  by (simp add: fresh_def header_def)

text \<open>
  An entity tag has neither blanks nor commas, so an If-None-Match header that consists
  of the entity tag of the response lists exactly that tag, and the request is fresh.
\<close>

lemma token_loop_plain:
  "\<forall>c \<in> set s. c \<noteq> CHR '' '' \<and> c \<noteq> CHR '','' \<Longrightarrow>
   token_loop s tok [] list = list @ [tok @ s]"
  by (induction s arbitrary: tok) simp_all

lemma hex_chars: "set (hex n) \<subseteq> set ''0123456789abcdef''"
proof (induction n rule: hex.induct)
  case (1 n)
  have digit: "''0123456789abcdef'' ! k \<in> set ''0123456789abcdef''" if "k < 16" for k
    using that by (intro nth_mem) simp
  show ?case
  proof (cases "n < 16")
    case True
    then show ?thesis
      using digit [of n] by (subst hex.simps) simp
  next
    case False
    with "1.IH" digit [of "n mod 16"] show ?thesis
      by (subst hex.simps) simp
  qed
qed

lemma base64_digit:
  "k < 64 \<Longrightarrow> base64_alphabet ! k \<in> set base64_alphabet"
  by (intro nth_mem) (simp add: base64_alphabet_def)

lemma base64_chars:
  "\<forall>b \<in> set bs. b < 256 \<Longrightarrow> set (base64 bs) \<subseteq> insert CHR ''='' (set base64_alphabet)"
proof (induction bs rule: base64.induct)
  case (1 a b c bs)
  then have "a < 256" "b < 256" "c < 256" by simp_all
  then have "a div 4 < 64" "(a mod 4) * 16 + b div 16 < 64"
    "(b mod 16) * 4 + c div 64 < 64" "c mod 64 < 64"
    by (simp_all add: less_mult_imp_div_less)
  with 1 show ?case
    by (simp add: base64_digit)
next
  case (2 a b)
  then have "a < 256" "b < 256" by simp_all
  then have "a div 4 < 64" "(a mod 4) * 16 + b div 16 < 64" "(b mod 16) * 4 < 64"
    by (simp_all add: less_mult_imp_div_less)
  then show ?case
    by (simp add: base64_digit)
next
  case (3 a)
  then have "a < 256" by simp
  then have "a div 4 < 64" "(a mod 4) * 16 < 64"
    by (simp_all add: less_mult_imp_div_less)
  then show ?case
    by (simp add: base64_digit)
next
  case 4
  then show ?case by simp
qed

lemma word_bytes_small: "\<forall>b \<in> set (word_bytes x). b < 256"
proof -
  have "unat (w AND 255) < 256" for w :: "32 word"
  proof -
    have "w AND 255 \<le> 255" by (rule word_and_le1)
    then have "unat (w AND 255) \<le> unat (255 :: 32 word)" by (simp add: word_le_nat_alt)
    then show ?thesis by simp
  qed
  then show ?thesis by (simp add: word_bytes_def)
qed

lemma sha1_small: "\<forall>b \<in> set (sha1 bs). b < 256"
  using word_bytes_small by (auto simp add: sha1_def Let_def split: prod.splits)


lemma hex_plain: "\<forall>c \<in> set (hex n). c \<noteq> CHR '' '' \<and> c \<noteq> CHR '',''"
proof -
  have "\<forall>c \<in> set ''0123456789abcdef''. c \<noteq> CHR '' '' \<and> c \<noteq> CHR '',''"
    by simp
  with hex_chars [of n] show ?thesis
    by blast
qed

lemma digest_plain:
  "\<forall>c \<in> set (take 27 (base64 (sha1 bs))). c \<noteq> CHR '' '' \<and> c \<noteq> CHR '',''"
proof -
  have "\<forall>c \<in> insert CHR ''='' (set base64_alphabet). c \<noteq> CHR '' '' \<and> c \<noteq> CHR '',''"
    by (simp add: base64_alphabet_def)
  with base64_chars [OF sha1_small, of bs] have
    "\<forall>c \<in> set (base64 (sha1 bs)). c \<noteq> CHR '' '' \<and> c \<noteq> CHR '',''"
    by blast
  then show ?thesis
    by (meson in_set_takeD)
qed

lemma entitytag_plain:
  "\<forall>c \<in> set (entitytag entity). c \<noteq> CHR '' '' \<and> c \<noteq> CHR '',''"
proof (cases "entity = []")
  case True
  then show ?thesis
    by (simp add: entitytag_def)
next
  case False
  with hex_plain [of "length entity"] digest_plain [of "map of_char entity"]
  show ?thesis
    by (simp add: entitytag_def ball_Un)
qed

lemma wetag_plain: "\<forall>c \<in> set (wetag chunk). c \<noteq> CHR '' '' \<and> c \<noteq> CHR '',''"
  using entitytag_plain [of chunk] by (simp add: wetag_def)

lemma presented_tag_fresh: "fresh [(''if-none-match'', wetag chunk)] (Some (wetag chunk))"
proof -
  have tokens: "parse_token_list (wetag chunk) = [wetag chunk]"
    using token_loop_plain [OF wetag_plain, of chunk "[]" "[]"]
    by (simp add: parse_token_list_def)
  have "wetag chunk \<noteq> []" "wetag chunk \<noteq> ''*''"
    by (simp_all add: wetag_def)
  with tokens show ?thesis
    by (simp add: fresh_def header_def)
qed

subsection \<open>The handlers leave the console alone\<close>

lemma router_next_console:
  assumes "\<And>layer rq r out. layer \<in> set stack \<Longrightarrow>
             route_handle layer rq r out = (fst (route_handle layer rq r []), out)"
  shows "router_next stack options rq r out = (fst (router_next stack options rq r []), out)"
  using assms
proof (induction stack arbitrary: options)
  case Nil
  then show ?case by simp
next
  case (Cons layer stack)
  have here: "route_handle layer rq r out = (fst (route_handle layer rq r []), out)"
    by (rule Cons.prems) simp
  have rest: "router_next stack opts rq r out = (fst (router_next stack opts rq r []), out)"
    for opts
  proof (rule Cons.IH)
    fix l rq' r' out'
    assume "l \<in> set stack"
    then have "l \<in> set (layer # stack)" by simp
    then show "route_handle l rq' r' out' = (fst (route_handle l rq' r' []), out')"
      by (rule Cons.prems)
  qed
  show ?case
  proof (cases "match_path (route_path layer) (req_path rq)")
    case False
    then show ?thesis using rest [of options] by simp
  next
    case True
    show ?thesis
    proof (cases "handles_method layer (req_method rq)")
      case True
      with \<open>match_path (route_path layer) (req_path rq)\<close> show ?thesis
        using here by simp
    next
      case False
      with \<open>match_path (route_path layer) (req_path rq)\<close> show ?thesis
        using rest by (simp add: Let_def)
    qed
  qed
qed

lemma handle_console:
  assumes "\<And>layer rq r out. layer \<in> set app \<Longrightarrow>
             route_handle layer rq r out = (fst (route_handle layer rq r []), out)"
  shows "handle app rq out = (fst (handle app rq []), out)"
proof (cases "req_path rq = []")
  case True
  then show ?thesis by (simp add: handle_def)
next
  case False
  with router_next_console
    [OF assms, where options = "[]" and rq = rq and r = "fresh_res rq" and out = out] show ?thesis
    by (simp add: handle_def)
qed

lemma handle_console_A: "handle app_A rq out = (fst (handle app_A rq []), out)"
  by (rule handle_console) (auto simp add: app_A_def app_get_def express_def)

lemma handle_console_B: "handle app_B rq out = (fst (handle app_B rq []), out)"
  by (rule handle_console) (auto simp add: app_B_def app_get_def express_def)

lemma serve_main_A:
  "serve (main_A e) rq =
     (if port_available e 8000 then Some (fst (handle app_A rq [])) else None, main_A e)"
  using handle_console_A [of rq "stdout (main_A e)"]
  by (simp add: serve_def server_main_A proc_app_main_A)

lemma serve_main_B:
  "serve (main_B e) rq =
     (if port_available e 8000 then Some (fst (handle app_B rq [])) else None, main_B e)"
  using handle_console_B [of rq "stdout (main_B e)"]
  by (simp add: serve_def server_main_B proc_app_main_B)

lemma serve_all_fixed:
  assumes "\<And>rq. serve pr rq = (f rq, pr)"
  shows "serve_all pr rqs = (map f rqs, pr)"
  by (induction rqs) (simp_all add: assms)

lemma serve_all_main_A:
  "serve_all (main_A e) rqs =
     (map (\<lambda>rq. if port_available e 8000 then Some (fst (handle app_A rq [])) else None) rqs,
      main_A e)"
  by (rule serve_all_fixed) (rule serve_main_A)

lemma serve_all_main_B:
  "serve_all (main_B e) rqs =
     (map (\<lambda>rq. if port_available e 8000 then Some (fst (handle app_B rq [])) else None) rqs,
      main_B e)"
  by (rule serve_all_fixed) (rule serve_main_B)

subsection \<open>The response to each route\<close>

lemma get_root_A:
  "statusCode (fst (handle app_A (request GET ''/'' hs) out)) =
     (if fresh hs (Some (wetag ''Hello from Express!'')) then 304 else 200)"
  "body (fst (handle app_A (request GET ''/'' hs) out)) =
     (if fresh hs (Some (wetag ''Hello from Express!'')) then [] else ''Hello from Express!'')"
  by (simp_all add: app_A_def dispatch_defs)

lemma get_intro_A:
  "statusCode (fst (handle app_A (request GET ''/intro'' hs) out)) =
     (if fresh hs (Some (wetag ''Hello I am anuj!'')) then 304 else 200)"
  "body (fst (handle app_A (request GET ''/intro'' hs) out)) =
     (if fresh hs (Some (wetag ''Hello I am anuj!'')) then [] else ''Hello I am anuj!'')"
  by (simp_all add: app_A_def dispatch_defs)

lemma get_about_A:
  "statusCode (fst (handle app_A (request GET ''/about'' hs) out)) =
     (if fresh hs (Some (wetag ''about me'')) then 304 else 200)"
  "body (fst (handle app_A (request GET ''/about'' hs) out)) =
     (if fresh hs (Some (wetag ''about me'')) then [] else ''about me'')"
  by (simp_all add: app_A_def dispatch_defs)

lemma get_root_B:
  "statusCode (fst (handle app_B (request GET ''/'' hs) out)) =
     (if fresh hs (Some (wetag ''Hello from Express!'')) then 304 else 200)"
  "body (fst (handle app_B (request GET ''/'' hs) out)) =
     (if fresh hs (Some (wetag ''Hello from Express!'')) then [] else ''Hello from Express!'')"
  by (simp_all add: app_B_def dispatch_defs)

lemma get_intro_B:
  "statusCode (fst (handle app_B (request GET ''/intro'' hs) out)) =
     (if fresh hs (Some (wetag ''Hello I am anuj!'')) then 304 else 200)"
  "body (fst (handle app_B (request GET ''/intro'' hs) out)) =
     (if fresh hs (Some (wetag ''Hello I am anuj!'')) then [] else ''Hello I am anuj!'')"
  by (simp_all add: app_B_def dispatch_defs)

lemma get_section_B:
  "statusCode (fst (handle app_B (request GET ''/section'' hs) out)) =
     (if fresh hs (Some (wetag ''sexction'')) then 304 else 200)"
  "body (fst (handle app_B (request GET ''/section'' hs) out)) =
     (if fresh hs (Some (wetag ''sexction'')) then [] else ''sexction'')"
  by (simp_all add: app_B_def dispatch_defs)

lemma other_method_root_A:
  "m \<noteq> GET \<Longrightarrow>
   body (fst (handle app_A (request m ''/'' hs) out)) \<noteq> ''Hello from Express!''"
  by (cases m) (simp_all add: app_A_def dispatch_defs)

lemma other_method_intro_A:
  "m \<noteq> GET \<Longrightarrow>
   body (fst (handle app_A (request m ''/intro'' hs) out)) \<noteq> ''Hello I am anuj!''"
  by (cases m) (simp_all add: app_A_def dispatch_defs)

lemma other_method_about_A:
  "m \<noteq> GET \<Longrightarrow>
   body (fst (handle app_A (request m ''/about'' hs) out)) \<noteq> ''about me''"
  by (cases m) (simp_all add: app_A_def dispatch_defs)

lemma other_method_root_B:
  "m \<noteq> GET \<Longrightarrow>
   body (fst (handle app_B (request m ''/'' hs) out)) \<noteq> ''Hello from Express!''"
  by (cases m) (simp_all add: app_B_def dispatch_defs)

lemma other_method_intro_B:
  "m \<noteq> GET \<Longrightarrow>
   body (fst (handle app_B (request m ''/intro'' hs) out)) \<noteq> ''Hello I am anuj!''"
  by (cases m) (simp_all add: app_B_def dispatch_defs)

lemma other_method_section_B:
  "m \<noteq> GET \<Longrightarrow>
   body (fst (handle app_B (request m ''/section'' hs) out)) \<noteq> ''sexction''"
  by (cases m) (simp_all add: app_B_def dispatch_defs)

lemma post_root_not_found:
  "statusCode (fst (handle app_A (request POST ''/'' hs) out)) = 404"
  "statusCode (fst (handle app_B (request POST ''/'' hs) out)) = 404"
  by (simp_all add: app_A_def app_B_def dispatch_defs)

section \<open>Responses to GET on the registered paths\<close>

text \<open>
  Claim C1 says that a GET request to a registered path gets status 200 and the literal
  as body. The framework answers a conditional request that validates with status 304
  and no body: so it is for \<^verbatim>\<open>GET /\<close> in variant A with an If-None-Match header
  that holds the entity tag of the response.
\<close>

theorem get_root_if_none_match_not_200:
  "''/'' \<in> set (map route_path app_A) \<and>
   statusCode
     (fst (handle app_A
        (request GET ''/'' [(''if-none-match'', wetag ''Hello from Express!'')]) [])) = 304 \<and>
   body
     (fst (handle app_A
        (request GET ''/'' [(''if-none-match'', wetag ''Hello from Express!'')]) [])) = []"
  by (simp add: paths_A get_root_A presented_tag_fresh)

text \<open>
  Claim C1 as amended: in either variant, a GET request to each of the three registered
  paths whose conditional headers do not validate the response (any request without
  conditional headers among them) is answered with status 200 and a body that is
  exactly the string literal passed to \<^verbatim>\<open>res.send\<close> for that path.
\<close>

theorem get_mapped_path_literal_body:
  "(\<not> fresh hs (Some (wetag ''Hello from Express!'')) \<longrightarrow>
      statusCode (fst (handle app_A (request GET ''/'' hs) out)) = 200 \<and>
      body (fst (handle app_A (request GET ''/'' hs) out)) = ''Hello from Express!'') \<and>
   (\<not> fresh hs (Some (wetag ''Hello I am anuj!'')) \<longrightarrow>
      statusCode (fst (handle app_A (request GET ''/intro'' hs) out)) = 200 \<and>
      body (fst (handle app_A (request GET ''/intro'' hs) out)) = ''Hello I am anuj!'') \<and>
   (\<not> fresh hs (Some (wetag ''about me'')) \<longrightarrow>
      statusCode (fst (handle app_A (request GET ''/about'' hs) out)) = 200 \<and>
      body (fst (handle app_A (request GET ''/about'' hs) out)) = ''about me'') \<and>
   (\<not> fresh hs (Some (wetag ''Hello from Express!'')) \<longrightarrow>
      statusCode (fst (handle app_B (request GET ''/'' hs) out)) = 200 \<and>
      body (fst (handle app_B (request GET ''/'' hs) out)) = ''Hello from Express!'') \<and>
   (\<not> fresh hs (Some (wetag ''Hello I am anuj!'')) \<longrightarrow>
      statusCode (fst (handle app_B (request GET ''/intro'' hs) out)) = 200 \<and>
      body (fst (handle app_B (request GET ''/intro'' hs) out)) = ''Hello I am anuj!'') \<and>
   (\<not> fresh hs (Some (wetag ''sexction'')) \<longrightarrow>
      statusCode (fst (handle app_B (request GET ''/section'' hs) out)) = 200 \<and>
      body (fst (handle app_B (request GET ''/section'' hs) out)) = ''sexction'')"
  by (simp add: get_root_A get_intro_A get_about_A get_root_B get_intro_B get_section_B)

theorem get_mapped_path_literal_body_witness:
  "\<not> fresh [] (Some (wetag ''Hello from Express!'')) \<and>
   statusCode (fst (handle app_A (request GET ''/'' []) [])) = 200 \<and>
   body (fst (handle app_A (request GET ''/'' []) [])) = ''Hello from Express!'' \<and>
   \<not> fresh [] (Some (wetag ''Hello I am anuj!'')) \<and>
   statusCode (fst (handle app_A (request GET ''/intro'' []) [])) = 200 \<and>
   body (fst (handle app_A (request GET ''/intro'' []) [])) = ''Hello I am anuj!'' \<and>
   \<not> fresh [] (Some (wetag ''about me'')) \<and>
   statusCode (fst (handle app_A (request GET ''/about'' []) [])) = 200 \<and>
   body (fst (handle app_A (request GET ''/about'' []) [])) = ''about me'' \<and>
   statusCode (fst (handle app_B (request GET ''/'' []) [])) = 200 \<and>
   body (fst (handle app_B (request GET ''/'' []) [])) = ''Hello from Express!'' \<and>
   statusCode (fst (handle app_B (request GET ''/intro'' []) [])) = 200 \<and>
   body (fst (handle app_B (request GET ''/intro'' []) [])) = ''Hello I am anuj!'' \<and>
   \<not> fresh [] (Some (wetag ''sexction'')) \<and>
   statusCode (fst (handle app_B (request GET ''/section'' []) [])) = 200 \<and>
   body (fst (handle app_B (request GET ''/section'' []) [])) = ''sexction''"
  using get_mapped_path_literal_body [of "[]" "[]"]
  by (simp add: no_headers_not_fresh)

text \<open>
  Claim C2 says that the 200 response to a GET request on a registered path carries the
  content type \<^verbatim>\<open>text/plain\<close>. It does not: the handlers pass a string to
  \<^verbatim>\<open>res.send\<close> without setting a type, and for a string the framework sets
  \<^verbatim>\<open>text/html\<close>. The response to \<^verbatim>\<open>GET /\<close> without headers in variant A
  shows it.
\<close>

theorem get_root_content_type_not_plain:
  "''/'' \<in> set (map route_path app_A) \<and>
   statusCode (fst (handle app_A (request GET ''/'' []) [])) = 200 \<and>
   map_option media_type (contentType (fst (handle app_A (request GET ''/'' []) []))) \<noteq>
     Some ''text/plain''"
  by (simp add: paths_A) (simp add: app_A_def dispatch_defs no_headers_not_fresh)

text \<open>
  Claim C2 as amended: for every GET request whose path is one of the registered paths,
  a response with status 200 carries the Content-Type header
  \<^verbatim>\<open>text/html; charset=utf-8\<close>; and the response has status 200 at least whenever
  the request has no If-None-Match header.
\<close>

theorem get_mapped_path_content_type_html:
  "(p \<in> set (map route_path app_A) \<longrightarrow>
      (statusCode (fst (handle app_A (request GET p hs) out)) = 200 \<longrightarrow>
         map_option header_value (contentType (fst (handle app_A (request GET p hs) out))) =
           Some ''text/html; charset=utf-8'') \<and>
      (header hs ''if-none-match'' = None \<longrightarrow>
         statusCode (fst (handle app_A (request GET p hs) out)) = 200)) \<and>
   (p \<in> set (map route_path app_B) \<longrightarrow>
      (statusCode (fst (handle app_B (request GET p hs) out)) = 200 \<longrightarrow>
         map_option header_value (contentType (fst (handle app_B (request GET p hs) out))) =
           Some ''text/html; charset=utf-8'') \<and>
      (header hs ''if-none-match'' = None \<longrightarrow>
         statusCode (fst (handle app_B (request GET p hs) out)) = 200))"
proof (intro conjI impI)
  assume "p \<in> set (map route_path app_A)"
  then have p: "p = ''/'' \<or> p = ''/intro'' \<or> p = ''/about''"
    by (simp add: paths_A)
  {
    assume "statusCode (fst (handle app_A (request GET p hs) out)) = 200"
    with p show "map_option header_value
        (contentType (fst (handle app_A (request GET p hs) out))) =
      Some ''text/html; charset=utf-8''"
      by (elim disjE) (simp_all add: app_A_def dispatch_defs header_value_def split: if_splits)
  }
  {
    assume "header hs ''if-none-match'' = None"
    then have "\<not> fresh hs tag" for tag
      by (rule unconditional_not_fresh)
    with p show "statusCode (fst (handle app_A (request GET p hs) out)) = 200"
      by (elim disjE) (simp_all add: get_root_A get_intro_A get_about_A)
  }
next
  assume "p \<in> set (map route_path app_B)"
  then have p: "p = ''/'' \<or> p = ''/intro'' \<or> p = ''/section''"
    by (simp add: paths_B)
  {
    assume "statusCode (fst (handle app_B (request GET p hs) out)) = 200"
    with p show "map_option header_value
        (contentType (fst (handle app_B (request GET p hs) out))) =
      Some ''text/html; charset=utf-8''"
      by (elim disjE) (simp_all add: app_B_def dispatch_defs header_value_def split: if_splits)
  }
  {
    assume "header hs ''if-none-match'' = None"
    then have "\<not> fresh hs tag" for tag
      by (rule unconditional_not_fresh)
    with p show "statusCode (fst (handle app_B (request GET p hs) out)) = 200"
      by (elim disjE) (simp_all add: get_root_B get_intro_B get_section_B)
  }
qed

theorem get_mapped_path_content_type_html_witness:
  "''/intro'' \<in> set (map route_path app_A) \<and>
   header [] ''if-none-match'' = None \<and>
   statusCode (fst (handle app_A (request GET ''/intro'' []) [])) = 200 \<and>
   map_option header_value (contentType (fst (handle app_A (request GET ''/intro'' []) []))) =
     Some ''text/html; charset=utf-8'' \<and>
   ''/intro'' \<in> set (map route_path app_B) \<and>
   statusCode (fst (handle app_B (request GET ''/intro'' []) [])) = 200 \<and>
   map_option header_value (contentType (fst (handle app_B (request GET ''/intro'' []) []))) =
     Some ''text/html; charset=utf-8''"
  using get_mapped_path_content_type_html [of "''/intro''" "[]" "[]"]
  by (simp add: paths_A paths_B header_def)

section \<open>Paths that no route matches\<close>

text \<open>
  Claim C3 says that a GET request whose path is not exactly one of the registered paths,
  a case variant or a trailing-slash variant of one included, never gets status 200. The
  program leaves the framework's routing at its defaults, which ignore letter case and
  accept one slash at the end: \<^verbatim>\<open>GET /INTRO\<close> and \<^verbatim>\<open>GET /intro/\<close> are
  not registered paths and both get status 200 in variant A.
\<close>

theorem get_case_and_slash_variants_found:
  "''/INTRO'' \<notin> set (map route_path app_A) \<and>
   statusCode (fst (handle app_A (request GET ''/INTRO'' []) [])) = 200 \<and>
   ''/intro/'' \<notin> set (map route_path app_A) \<and>
   statusCode (fst (handle app_A (request GET ''/intro/'' []) [])) = 200"
  by (simp add: paths_A) (simp add: app_A_def dispatch_defs no_headers_not_fresh)

text \<open>
  Claim C3 as amended: a GET request, whatever its headers, gets status 404 whenever its
  path, with its ASCII letters put in lower case, is neither a registered path nor a
  registered path other than \<^verbatim>\<open>/\<close> followed by one slash.
\<close>

theorem get_unmatched_path_not_found:
  "(map to_lower p \<notin> {''/'', ''/intro'', ''/intro/'', ''/about'', ''/about/''} \<longrightarrow>
      statusCode (fst (handle app_A (request GET p hs) out)) = 404) \<and>
   (map to_lower p \<notin> {''/'', ''/intro'', ''/intro/'', ''/section'', ''/section/''} \<longrightarrow>
      statusCode (fst (handle app_B (request GET p hs) out)) = 404)"
  by (simp add: app_A_def app_B_def handle_def app_get_def express_def match_path_def
      to_lower_def finalhandler_def fresh_res_def Let_def)

theorem get_unmatched_path_not_found_witness:
  "map to_lower ''/does-not-exist'' \<notin>
     {''/'', ''/intro'', ''/intro/'', ''/about'', ''/about/''} \<and>
   statusCode (fst (handle app_A (request GET ''/does-not-exist'' []) [])) = 404 \<and>
   map to_lower ''/does-not-exist'' \<notin>
     {''/'', ''/intro'', ''/intro/'', ''/section'', ''/section/''} \<and>
   statusCode (fst (handle app_B (request GET ''/does-not-exist'' []) [])) = 404"
  using get_unmatched_path_not_found [of "''/does-not-exist''" "[]" "[]"]
  by (simp add: to_lower_def)

section \<open>Methods other than GET\<close>

text \<open>
  Claim C4. For every method other than GET, the response to a request on a registered
  path, whatever its headers, does not have the body that GET gets on that path: HEAD
  gets an empty body, OPTIONS the list of allowed methods, every other method the page
  of the final handler. In particular \<^verbatim>\<open>POST /\<close> gets status 404.
\<close>

theorem other_method_not_literal_body:
  assumes "m \<noteq> GET"
  shows "body (fst (handle app_A (request m ''/'' hs) out)) \<noteq> ''Hello from Express!'' \<and>
         body (fst (handle app_A (request m ''/intro'' hs) out)) \<noteq> ''Hello I am anuj!'' \<and>
         body (fst (handle app_A (request m ''/about'' hs) out)) \<noteq> ''about me'' \<and>
         body (fst (handle app_B (request m ''/'' hs) out)) \<noteq> ''Hello from Express!'' \<and>
         body (fst (handle app_B (request m ''/intro'' hs) out)) \<noteq> ''Hello I am anuj!'' \<and>
         body (fst (handle app_B (request m ''/section'' hs) out)) \<noteq> ''sexction'' \<and>
         statusCode (fst (handle app_A (request POST ''/'' hs) out)) = 404 \<and>
         statusCode (fst (handle app_B (request POST ''/'' hs) out)) = 404"
  using assms
  by (simp add: other_method_root_A other_method_intro_A other_method_about_A
      other_method_root_B other_method_intro_B other_method_section_B post_root_not_found)

theorem other_method_not_literal_body_witness:
  "POST \<noteq> GET \<and>
   body (fst (handle app_A (request POST ''/'' []) [])) \<noteq> ''Hello from Express!'' \<and>
   body (fst (handle app_A (request POST ''/intro'' []) [])) \<noteq> ''Hello I am anuj!'' \<and>
   body (fst (handle app_A (request POST ''/about'' []) [])) \<noteq> ''about me'' \<and>
   body (fst (handle app_B (request POST ''/'' []) [])) \<noteq> ''Hello from Express!'' \<and>
   body (fst (handle app_B (request POST ''/intro'' []) [])) \<noteq> ''Hello I am anuj!'' \<and>
   body (fst (handle app_B (request POST ''/section'' []) [])) \<noteq> ''sexction'' \<and>
   statusCode (fst (handle app_A (request POST ''/'' []) [])) = 404 \<and>
   statusCode (fst (handle app_B (request POST ''/'' []) [])) = 404"
  using other_method_not_literal_body [of POST "[]" "[]"] by simp

section \<open>The third route\<close>

text \<open>
  Claim C5 says that \<^verbatim>\<open>GET /about\<close> gets status 200 and the body
  \<^verbatim>\<open>about me\<close> from variant A. With an If-None-Match header that holds the
  entity tag of the response it gets status 304 and no body.
\<close>

theorem get_about_if_none_match_not_200:
  "statusCode
     (fst (handle app_A (request GET ''/about'' [(''if-none-match'', wetag ''about me'')]) [])) =
     304 \<and>
   body
     (fst (handle app_A (request GET ''/about'' [(''if-none-match'', wetag ''about me'')]) [])) =
     []"
  by (simp add: get_about_A presented_tag_fresh)

text \<open>
  Claim C5 as amended: \<^verbatim>\<open>GET /about\<close> gets status 200 and the body
  \<^verbatim>\<open>about me\<close> from variant A when the conditional headers of the request do not
  validate the response (in particular when it has none), and status 404 from variant B
  whatever its headers.
\<close>

theorem get_about_by_variant:
  "(\<not> fresh hs (Some (wetag ''about me'')) \<longrightarrow>
      statusCode (fst (handle app_A (request GET ''/about'' hs) out)) = 200 \<and>
      body (fst (handle app_A (request GET ''/about'' hs) out)) = ''about me'') \<and>
   statusCode (fst (handle app_B (request GET ''/about'' hs) out)) = 404"
  by (simp add: get_about_A) (simp add: app_B_def dispatch_defs)

theorem get_about_by_variant_witness:
  "\<not> fresh [] (Some (wetag ''about me'')) \<and>
   statusCode (fst (handle app_A (request GET ''/about'' []) [])) = 200 \<and>
   body (fst (handle app_A (request GET ''/about'' []) [])) = ''about me'' \<and>
   statusCode (fst (handle app_B (request GET ''/about'' []) [])) = 404"
  using get_about_by_variant [of "[]" "[]"]
  by (simp add: no_headers_not_fresh)

text \<open>
  Claim C6 says that \<^verbatim>\<open>GET /section\<close> gets status 200 and the body
  \<^verbatim>\<open>sexction\<close> from variant B. With an If-None-Match header that holds the
  entity tag of the response it gets status 304 and no body.
\<close>

theorem get_section_if_none_match_not_200:
  "statusCode
     (fst (handle app_B (request GET ''/section'' [(''if-none-match'', wetag ''sexction'')]) [])) =
     304 \<and>
   body
     (fst (handle app_B (request GET ''/section'' [(''if-none-match'', wetag ''sexction'')]) [])) =
     []"
  by (simp add: get_section_B presented_tag_fresh)

text \<open>
  Claim C6 as amended: \<^verbatim>\<open>GET /section\<close> gets status 200 and the body
  \<^verbatim>\<open>sexction\<close> from variant B when the conditional headers of the request do not
  validate the response (in particular when it has none).
\<close>

theorem get_section_variant_B:
  "\<not> fresh hs (Some (wetag ''sexction'')) \<Longrightarrow>
   statusCode (fst (handle app_B (request GET ''/section'' hs) out)) = 200 \<and>
   body (fst (handle app_B (request GET ''/section'' hs) out)) = ''sexction''"
  by (simp add: get_section_B)

theorem get_section_variant_B_witness:
  "\<not> fresh [] (Some (wetag ''sexction'')) \<and>
   statusCode (fst (handle app_B (request GET ''/section'' []) [])) = 200 \<and>
   body (fst (handle app_B (request GET ''/section'' []) [])) = ''sexction''"
  using get_section_variant_B [of "[]" "[]"]
  by (simp add: no_headers_not_fresh)

section \<open>Listening\<close>

text \<open>
  Claim C7. In both variants the port is the constant 8000: the program asks for port
  8000 and no other, whatever the environment variables and the command line are, and
  running it with other environment variables or another command line changes nothing.
\<close>

theorem listen_port_fixed:
  "PORT_A = 8000 \<and> PORT_B = 8000 \<and>
   server (main_A e) = (if port_available e 8000 then Listening 8000 else BindError 8000) \<and>
   server (main_B e) = (if port_available e 8000 then Listening 8000 else BindError 8000) \<and>
   main_A (e\<lparr>env := vars, argv := args\<rparr>) = main_A e \<and>
   main_B (e\<lparr>env := vars, argv := args\<rparr>) = main_B e"
  by (simp add: server_main_A server_main_B PORT_A_def PORT_B_def)
     (simp add: main_A_def main_B_def listen_def)

text \<open>
  Claim C8. When the port can be bound the listener is bound and the console holds
  exactly one line, the startup message with the URL \<^verbatim>\<open>http://localhost:8000\<close>;
  when it cannot, the listener is not bound and the console holds nothing. Serving any
  sequence of requests afterwards writes nothing more.
\<close>

theorem startup_message_once_bound:
  "(port_available e 8000 \<longrightarrow>
      server (main_A e) = Listening 8000 \<and>
      stdout (main_A e) = [''Server is running on '' @ ''http://localhost:8000''] \<and>
      stdout (snd (serve_all (main_A e) rqs)) =
        [''Server is running on '' @ ''http://localhost:8000''] \<and>
      server (main_B e) = Listening 8000 \<and>
      stdout (main_B e) = [''Server is running on '' @ ''http://localhost:8000''] \<and>
      stdout (snd (serve_all (main_B e) rqs)) =
        [''Server is running on '' @ ''http://localhost:8000'']) \<and>
   (\<not> port_available e 8000 \<longrightarrow>
      server (main_A e) \<noteq> Listening 8000 \<and>
      stdout (main_A e) = [] \<and> stdout (snd (serve_all (main_A e) rqs)) = [] \<and>
      server (main_B e) \<noteq> Listening 8000 \<and>
      stdout (main_B e) = [] \<and> stdout (snd (serve_all (main_B e) rqs)) = [])"
  by (simp add: serve_all_main_A serve_all_main_B server_main_A server_main_B
      stdout_main_A stdout_main_B)

theorem startup_message_once_bound_witness:
  "port_available \<lparr>env = Map.empty, argv = [], port_available = (\<lambda>port. True)\<rparr> 8000 \<and>
   server (main_A \<lparr>env = Map.empty, argv = [], port_available = (\<lambda>port. True)\<rparr>) =
     Listening 8000 \<and>
   stdout (snd (serve_all
       (main_A \<lparr>env = Map.empty, argv = [], port_available = (\<lambda>port. True)\<rparr>)
       [request GET ''/'' [], request POST ''/intro'' []])) =
     [''Server is running on http://localhost:8000''] \<and>
   stdout (snd (serve_all
       (main_B \<lparr>env = Map.empty, argv = [], port_available = (\<lambda>port. True)\<rparr>)
       [request GET ''/'' [], request POST ''/intro'' []])) =
     [''Server is running on http://localhost:8000''] \<and>
   \<not> port_available \<lparr>env = Map.empty, argv = [], port_available = (\<lambda>port. False)\<rparr> 8000 \<and>
   stdout (main_A \<lparr>env = Map.empty, argv = [], port_available = (\<lambda>port. False)\<rparr>) = [] \<and>
   stdout (main_B \<lparr>env = Map.empty, argv = [], port_available = (\<lambda>port. False)\<rparr>) = []"
  using
    startup_message_once_bound
      [of "\<lparr>env = Map.empty, argv = [], port_available = (\<lambda>port. True)\<rparr>"
          "[request GET ''/'' [], request POST ''/intro'' []]"]
    startup_message_once_bound
      [of "\<lparr>env = Map.empty, argv = [], port_available = (\<lambda>port. False)\<rparr>" "[]"]
  by (simp del: serve_all.simps)

section \<open>Determinism\<close>

text \<open>
  Claim C9 says that the response is a function of the method and the path alone. Two
  GET requests for \<^verbatim>\<open>/\<close> get different responses in variant A when one of them
  carries an If-None-Match header that holds the entity tag of the response.
\<close>

theorem same_method_and_path_different_response:
  "statusCode (fst (handle app_A (request GET ''/'' []) [])) = 200 \<and>
   statusCode
     (fst (handle app_A
        (request GET ''/'' [(''if-none-match'', wetag ''Hello from Express!'')]) [])) = 304"
  by (simp add: get_root_A presented_tag_fresh no_headers_not_fresh)

text \<open>
  Claim C9 as amended: in a run of either program over any sequence of requests, two
  requests with the same method, path and headers get the same response, wherever they
  stand in the sequence: the response is the value of \<open>handle\<close> at the request, the
  same for every content of the console (and no response at all when the listener was
  not bound).
\<close>

theorem responses_deterministic:
  assumes "i < length rqs" and "j < length rqs" and "rqs ! i = rqs ! j"
  shows "fst (serve_all (main_A e) rqs) ! i = fst (serve_all (main_A e) rqs) ! j \<and>
         fst (serve_all (main_B e) rqs) ! i = fst (serve_all (main_B e) rqs) ! j \<and>
         fst (serve_all (main_A e) rqs) ! i =
           (if port_available e 8000 then Some (fst (handle app_A (rqs ! i) out)) else None) \<and>
         fst (serve_all (main_B e) rqs) ! i =
           (if port_available e 8000 then Some (fst (handle app_B (rqs ! i) out)) else None)"
proof -
  have "fst (handle app_A (rqs ! i) out) = fst (handle app_A (rqs ! i) [])"
    by (subst handle_console_A) simp
  moreover have "fst (handle app_B (rqs ! i) out) = fst (handle app_B (rqs ! i) [])"
    by (subst handle_console_B) simp
  ultimately show ?thesis
    using assms by (simp add: serve_all_main_A serve_all_main_B)
qed

theorem responses_deterministic_witness:
  "(0::nat) < length [request GET ''/'' [], request POST ''/intro'' [], request GET ''/'' []] \<and>
   fst (serve_all (main_A \<lparr>env = Map.empty, argv = [], port_available = (\<lambda>port. True)\<rparr>)
          [request GET ''/'' [], request POST ''/intro'' [], request GET ''/'' []]) ! 0 =
   fst (serve_all (main_A \<lparr>env = Map.empty, argv = [], port_available = (\<lambda>port. True)\<rparr>)
          [request GET ''/'' [], request POST ''/intro'' [], request GET ''/'' []]) ! 2 \<and>
   fst (serve_all (main_A \<lparr>env = Map.empty, argv = [], port_available = (\<lambda>port. True)\<rparr>)
          [request GET ''/'' [], request POST ''/intro'' [], request GET ''/'' []]) ! 0 =
   Some (fst (handle app_A (request GET ''/'' []) []))"
proof -
  let ?rqs = "[request GET ''/'' [], request POST ''/intro'' [], request GET ''/'' []]"
  let ?e = "\<lparr>env = Map.empty, argv = [], port_available = (\<lambda>port. True)\<rparr>"
  have first: "0 < length ?rqs" and second: "2 < length ?rqs"
    by simp_all
  have same: "?rqs ! 0 = ?rqs ! 2"
    by simp
  from responses_deterministic [OF first second same, of ?e "[]"] first
  show ?thesis
    by (auto simp del: serve_all.simps)
qed

section \<open>The two variants compared\<close>

text \<open>
  Claim C10. The two variants give the same response to \<^verbatim>\<open>GET /\<close> and to
  \<^verbatim>\<open>GET /intro\<close>; both ask for port 8000 and end in the same listening state,
  bound to port 8000 when the port is free; both print the same startup message then.
  They give the same response to every request, of any method and with any headers,
  whose path matches neither \<^verbatim>\<open>/about\<close> nor \<^verbatim>\<open>/section\<close>, and different
  responses to \<^verbatim>\<open>GET /about\<close> and to \<^verbatim>\<open>GET /section\<close>.
\<close>

theorem variants_agree_outside_third_route:
  "handle app_A (request GET ''/'' hs) out = handle app_B (request GET ''/'' hs) out \<and>
   handle app_A (request GET ''/intro'' hs) out = handle app_B (request GET ''/intro'' hs) out \<and>
   PORT_A = 8000 \<and> PORT_B = 8000 \<and>
   server (main_A e) = server (main_B e) \<and>
   stdout (main_A e) = stdout (main_B e) \<and>
   (port_available e 8000 \<longrightarrow>
      server (main_A e) = Listening 8000 \<and> server (main_B e) = Listening 8000 \<and>
      stdout (main_A e) = [''Server is running on http://localhost:8000''] \<and>
      stdout (main_B e) = [''Server is running on http://localhost:8000'']) \<and>
   (\<not> match_path ''/about'' (req_path rq) \<and> \<not> match_path ''/section'' (req_path rq) \<longrightarrow>
      handle app_A rq out = handle app_B rq out) \<and>
   fst (handle app_A (request GET ''/about'' []) []) \<noteq>
     fst (handle app_B (request GET ''/about'' []) []) \<and>
   fst (handle app_A (request GET ''/section'' []) []) \<noteq>
     fst (handle app_B (request GET ''/section'' []) [])"
proof (intro conjI impI)
  show "handle app_A (request GET ''/'' hs) out = handle app_B (request GET ''/'' hs) out"
    by (simp add: app_A_def app_B_def dispatch_defs)
  show "handle app_A (request GET ''/intro'' hs) out =
      handle app_B (request GET ''/intro'' hs) out"
    by (simp add: app_A_def app_B_def dispatch_defs)
  show "PORT_A = 8000"
    by (simp add: PORT_A_def)
  show "PORT_B = 8000"
    by (simp add: PORT_B_def)
  show "server (main_A e) = server (main_B e)"
    by (simp add: server_main_A server_main_B)
  show "stdout (main_A e) = stdout (main_B e)"
    by (simp add: stdout_main_A stdout_main_B)
  show "fst (handle app_A (request GET ''/about'' []) []) \<noteq>
      fst (handle app_B (request GET ''/about'' []) [])"
    by (simp add: app_A_def app_B_def dispatch_defs no_headers_not_fresh)
  show "fst (handle app_A (request GET ''/section'' []) []) \<noteq>
      fst (handle app_B (request GET ''/section'' []) [])"
    by (simp add: app_A_def app_B_def dispatch_defs no_headers_not_fresh)
next
  assume "port_available e 8000"
  then show "server (main_A e) = Listening 8000" "server (main_B e) = Listening 8000"
    "stdout (main_A e) = [''Server is running on http://localhost:8000'']"
    "stdout (main_B e) = [''Server is running on http://localhost:8000'']"
    by (simp_all add: server_main_A server_main_B stdout_main_A stdout_main_B)
next
  assume "\<not> match_path ''/about'' (req_path rq) \<and> \<not> match_path ''/section'' (req_path rq)"
  then show "handle app_A rq out = handle app_B rq out"
    by (simp add: app_A_def app_B_def handle_def app_get_def express_def Let_def)
qed

theorem variants_agree_outside_third_route_witness:
  "port_available \<lparr>env = Map.empty, argv = [], port_available = (\<lambda>port. True)\<rparr> 8000 \<and>
   server (main_A \<lparr>env = Map.empty, argv = [], port_available = (\<lambda>port. True)\<rparr>) =
     Listening 8000 \<and>
   server (main_B \<lparr>env = Map.empty, argv = [], port_available = (\<lambda>port. True)\<rparr>) =
     Listening 8000 \<and>
   stdout (main_A \<lparr>env = Map.empty, argv = [], port_available = (\<lambda>port. True)\<rparr>) =
     [''Server is running on http://localhost:8000''] \<and>
   stdout (main_B \<lparr>env = Map.empty, argv = [], port_available = (\<lambda>port. True)\<rparr>) =
     [''Server is running on http://localhost:8000''] \<and>
   \<not> match_path ''/about'' (req_path (request OPTIONS ''/Intro/'' [])) \<and>
   \<not> match_path ''/section'' (req_path (request OPTIONS ''/Intro/'' [])) \<and>
   handle app_A (request OPTIONS ''/Intro/'' []) [] =
     handle app_B (request OPTIONS ''/Intro/'' []) []"
  using variants_agree_outside_third_route
    [where e = "\<lparr>env = Map.empty, argv = [], port_available = (\<lambda>port. True)\<rparr>"
       and rq = "request OPTIONS ''/Intro/'' []" and out = "[]" and hs = "[]"]
  by (simp add: match_path_def to_lower_def)

end
